theory Spec2Isabelle
  imports Main
begin

section \<open>The heap of the program\<close>

text \<open>
  The package \<open>syncpool\<close> wraps the encoders and decoders of
  \<open>github.com/klauspost/compress/zstd\<close> so that they can live in a \<open>sync.Pool\<close>.
  Every Go object that is reached through a pointer is kept in a store indexed by
  addresses; a nil pointer is \<open>None\<close>. A non-nil Go pointer always refers to an
  object, so the stores are total functions. An \<open>io.Reader\<close> or \<open>io.Writer\<close> is
  identified by a number, and nil is \<open>None\<close>.
\<close>

type_synonym addr = nat
type_synonym stream = nat

datatype error = ErrDecoderClosed | ErrOption nat

text \<open>
  A panic is a nil pointer dereference, a failed type assertion, or \<open>panic(err)\<close>.
  A call either returns a value or panics; the state it leaves behind is kept in both
  cases, since the writes made before a panic stay made.
\<close>

datatype panic = NilDereference | TypeAssertion | PanicError error

datatype 'a exit = Return 'a | Panics panic

text \<open>The state of a \<open>*zstd.Decoder\<close> and of a \<open>*zstd.Encoder\<close>, as far as this package sees it.\<close>

record decoder =
  dec_source :: "stream option"
  dec_closed :: bool

record encoder =
  enc_target :: "stream option"
  enc_closed :: bool

text \<open>
  A \<open>zstd.DOption\<close> or \<open>zstd.EOption\<close> is a function that is applied to the options
  structure and returns an error; only that error matters here.
\<close>

type_synonym DOption = "error option"
type_synonym EOption = "error option"

text \<open>
  A value of type \<open>interface{}\<close>: nil, a \<open>*EncoderWrapper\<close>, a \<open>*DecoderWrapper\<close>,
  or a value of any other dynamic type.
\<close>

datatype iface = NilIface | EncW addr | DecW addr | OtherIface nat

record EncoderWrapper =
  Encoder :: "addr option"

record DecoderWrapper =
  Decoder :: "addr option"
  pool :: "addr option"

text \<open>
  The two closures that the package assigns to \<open>p.New\<close>, with the variables they
  capture: the options, and for decoders the pool \<open>p\<close> itself. The two closures
  that it hands to \<open>runtime.SetFinalizer\<close> capture nothing.
\<close>

datatype newfn = EncoderNew "EOption list" | DecoderNew addr "DOption list"

datatype finalizer = EncoderFinalizer | DecoderFinalizer

record Pool =
  idle :: "iface list"
  New :: "newfn option"

record world =
  encoders :: "addr \<Rightarrow> encoder"
  decoders :: "addr \<Rightarrow> decoder"
  ewrappers :: "addr \<Rightarrow> EncoderWrapper"
  dwrappers :: "addr \<Rightarrow> DecoderWrapper"
  pools :: "addr \<Rightarrow> Pool"
  finalizers :: "addr \<Rightarrow> finalizer option"
  heap_top :: addr

text \<open>Sequencing of two calls: a panic of the first one ends the whole.\<close>

definition seq :: "(world \<Rightarrow> 'a exit \<times> world) \<Rightarrow> ('a \<Rightarrow> world \<Rightarrow> 'b exit \<times> world)
    \<Rightarrow> world \<Rightarrow> 'b exit \<times> world" where
  "seq m f s = (case m s of (Return x, s') \<Rightarrow> f x s' | (Panics p, s') \<Rightarrow> (Panics p, s'))"

definition ret :: "'a \<Rightarrow> world \<Rightarrow> 'a exit \<times> world" where
  "ret x s = (Return x, s)"

section \<open>The codec engine\<close>

text \<open>
  Modelled from the spec: the codec engine \<open>zstd\<close> is an external collaborator whose
  code is not part of the repository. The spec (sections 1, 4.2 and 6) and the comments
  of the source give its contract: the constructor returns a handle or an error; reset
  rebinds the source or target of a handle; a decoder that was closed cannot be reset
  again (\<open>Decoder.Reset only returns a non-nil error if Close has been called\<close>); close
  is terminal. A method called on a nil handle dereferences nil.
\<close>

fun first_error :: "error option list \<Rightarrow> error option" where
  "first_error [] = None"
| "first_error (None # os) = first_error os"
| "first_error (Some e # os) = Some e"

definition zstd_NewReader :: "stream option \<Rightarrow> DOption list \<Rightarrow> world
    \<Rightarrow> (addr option \<times> error option) \<times> world" where
  "zstd_NewReader r opts s =
     (case first_error opts of
        Some e \<Rightarrow> ((None, Some e), s)
      | None \<Rightarrow>
          (let d = heap_top s
           in ((Some d, None),
               s\<lparr>decoders := (decoders s)(d := \<lparr>dec_source = r, dec_closed = False\<rparr>),
                 heap_top := Suc d\<rparr>)))"

definition zstd_NewWriter :: "stream option \<Rightarrow> EOption list \<Rightarrow> world
    \<Rightarrow> (addr option \<times> error option) \<times> world" where
  "zstd_NewWriter w opts s =
     (case first_error opts of
        Some e \<Rightarrow> ((None, Some e), s)
      | None \<Rightarrow>
          (let e = heap_top s
           in ((Some e, None),
               s\<lparr>encoders := (encoders s)(e := \<lparr>enc_target = w, enc_closed = False\<rparr>),
                 heap_top := Suc e\<rparr>)))"

definition Decoder_Reset :: "addr option \<Rightarrow> stream option \<Rightarrow> world \<Rightarrow> error option exit \<times> world" where
  "Decoder_Reset d r s =
     (case d of
        None \<Rightarrow> (Panics NilDereference, s)
      | Some h \<Rightarrow>
          if dec_closed (decoders s h) then (Return (Some ErrDecoderClosed), s)
          else (Return None, s\<lparr>decoders := (decoders s)(h := (decoders s h)\<lparr>dec_source := r\<rparr>)\<rparr>))"

definition Decoder_Close :: "addr option \<Rightarrow> world \<Rightarrow> unit exit \<times> world" where
  "Decoder_Close d s =
     (case d of
        None \<Rightarrow> (Panics NilDereference, s)
      | Some h \<Rightarrow> (Return (), s\<lparr>decoders := (decoders s)(h := (decoders s h)\<lparr>dec_closed := True\<rparr>)\<rparr>))"

definition Encoder_Reset :: "addr option \<Rightarrow> stream option \<Rightarrow> world \<Rightarrow> unit exit \<times> world" where
  "Encoder_Reset e w s =
     (case e of
        None \<Rightarrow> (Panics NilDereference, s)
      | Some h \<Rightarrow> (Return (), s\<lparr>encoders := (encoders s)(h := (encoders s h)\<lparr>enc_target := w\<rparr>)\<rparr>))"

definition Encoder_Close :: "addr option \<Rightarrow> world \<Rightarrow> error option exit \<times> world" where
  "Encoder_Close e s =
     (case e of
        None \<Rightarrow> (Panics NilDereference, s)
      | Some h \<Rightarrow> (Return None, s\<lparr>encoders := (encoders s)(h := (encoders s h)\<lparr>enc_closed := True\<rparr>)\<rparr>))"

section \<open>The generic pool\<close>

text \<open>
  Modelled from the spec: \<open>sync.Pool\<close> belongs to the Go library. The spec (sections 1,
  3 and 6) describes it as an unordered best-effort collection: \<open>release\<close> adds an item,
  \<open>acquire\<close> hands out any idle item or builds a new one with the construction
  function, and the pool may drop idle items at any time. Which idle item \<open>Get\<close> hands
  out is the choice of the pool: \<open>Some i\<close> takes the idle item at position \<open>i\<close>,
  anything else treats the pool as empty. \<open>Put\<close> ignores a nil item.
\<close>

definition runtime_SetFinalizer :: "addr \<Rightarrow> finalizer \<Rightarrow> world \<Rightarrow> world" where
  "runtime_SetFinalizer obj f s = s\<lparr>finalizers := (finalizers s)(obj := Some f)\<rparr>"

text \<open>The closure assigned to \<open>p.New\<close> by \<open>NewEncoderPool\<close>.\<close>

definition EncoderPool_New :: "EOption list \<Rightarrow> world \<Rightarrow> iface exit \<times> world" where
  "EncoderPool_New options s =
     (case zstd_NewWriter None options s of
        ((e, _), s1) \<Rightarrow>
          (let ew = heap_top s1;
               s2 = s1\<lparr>ewrappers := (ewrappers s1)(ew := \<lparr>Encoder = e\<rparr>), heap_top := Suc ew\<rparr>;
               s3 = runtime_SetFinalizer ew EncoderFinalizer s2
           in (Return (EncW ew), s3)))"

text \<open>The closure assigned to \<open>p.New\<close> by \<open>NewDecoderPool\<close>; \<open>p\<close> is the pool it captures.\<close>

definition DecoderPool_New :: "addr \<Rightarrow> DOption list \<Rightarrow> world \<Rightarrow> iface exit \<times> world" where
  "DecoderPool_New p options s =
     (case zstd_NewReader None options s of
        ((d, _), s1) \<Rightarrow>
          (let dw = heap_top s1;
               s2 = s1\<lparr>dwrappers := (dwrappers s1)(dw := \<lparr>Decoder = d, pool = Some p\<rparr>),
                      heap_top := Suc dw\<rparr>;
               s3 = runtime_SetFinalizer dw DecoderFinalizer s2
           in (Return (DecW dw), s3)))"

definition call_New :: "newfn \<Rightarrow> world \<Rightarrow> iface exit \<times> world" where
  "call_New f s =
     (case f of
        EncoderNew options \<Rightarrow> EncoderPool_New options s
      | DecoderNew p options \<Rightarrow> DecoderPool_New p options s)"

definition Pool_Put :: "addr option \<Rightarrow> iface \<Rightarrow> world \<Rightarrow> unit exit \<times> world" where
  "Pool_Put p x s =
     (if x = NilIface then (Return (), s)
      else case p of
        None \<Rightarrow> (Panics NilDereference, s)
      | Some a \<Rightarrow> (Return (), s\<lparr>pools := (pools s)(a := (pools s a)\<lparr>idle := idle (pools s a) @ [x]\<rparr>)\<rparr>))"

definition Pool_Get :: "addr option \<Rightarrow> nat option \<Rightarrow> world \<Rightarrow> iface exit \<times> world" where
  "Pool_Get p choice s =
     (case p of
        None \<Rightarrow> (Panics NilDereference, s)
      | Some a \<Rightarrow>
          (let xs = idle (pools s a)
           in case choice of
                Some i \<Rightarrow>
                  if i < length xs
                  then (Return (xs ! i),
                        s\<lparr>pools := (pools s)(a := (pools s a)\<lparr>idle := take i xs @ drop (Suc i) xs\<rparr>)\<rparr>)
                  else (case New (pools s a) of
                          None \<Rightarrow> (Return NilIface, s)
                        | Some f \<Rightarrow> call_New f s)
              | None \<Rightarrow>
                  (case New (pools s a) of
                     None \<Rightarrow> (Return NilIface, s)
                   | Some f \<Rightarrow> call_New f s)))"

section \<open>Encoders\<close>

text \<open>The encoder side, lines 25 to 76 of \<open>encoderpool.go\<close>.\<close>

definition NewEncoderPool :: "EOption list \<Rightarrow> world \<Rightarrow> addr \<times> world" where
  "NewEncoderPool options s =
     (let p = heap_top s
      in (p, s\<lparr>pools := (pools s)(p := \<lparr>idle = [], New = Some (EncoderNew options)\<rparr>),
               heap_top := Suc p\<rparr>))"

text \<open>The finalizer of an \<open>*EncoderWrapper\<close>: \<open>ew.Encoder.Close()\<close>, its result dropped.\<close>

definition EncoderWrapper_finalizer :: "addr \<Rightarrow> world \<Rightarrow> unit exit \<times> world" where
  "EncoderWrapper_finalizer ew s =
     seq (Encoder_Close (Encoder (ewrappers s ew))) (\<lambda>_. ret ()) s"

record EncoderPoolWrapper =
  epw_pool :: "addr option"

definition type_assert_EncoderWrapper :: "iface \<Rightarrow> world \<Rightarrow> addr exit \<times> world" where
  "type_assert_EncoderWrapper x s =
     (case x of EncW ew \<Rightarrow> (Return ew, s) | _ \<Rightarrow> (Panics TypeAssertion, s))"

definition EncoderPoolWrapper_Get :: "EncoderPoolWrapper \<Rightarrow> stream option \<Rightarrow> nat option
    \<Rightarrow> world \<Rightarrow> addr exit \<times> world" where
  "EncoderPoolWrapper_Get e w choice =
     seq (Pool_Get (epw_pool e) choice) (\<lambda>x.
     seq (type_assert_EncoderWrapper x) (\<lambda>ew.
     seq (\<lambda>s. Encoder_Reset (Encoder (ewrappers s ew)) w s) (\<lambda>_.
     ret ew)))"

definition EncoderPoolWrapper_Put :: "EncoderPoolWrapper \<Rightarrow> addr \<Rightarrow> world \<Rightarrow> unit exit \<times> world" where
  "EncoderPoolWrapper_Put e w =
     seq (\<lambda>s. Encoder_Reset (Encoder (ewrappers s w)) None s) (\<lambda>_.
     Pool_Put (epw_pool e) (EncW w))"

definition NewEncoderPoolWrapper :: "EOption list \<Rightarrow> world \<Rightarrow> EncoderPoolWrapper \<times> world" where
  "NewEncoderPoolWrapper options s =
     (case NewEncoderPool options s of (p, s') \<Rightarrow> (\<lparr>epw_pool = Some p\<rparr>, s'))"

section \<open>Decoders\<close>

text \<open>The decoder side in its current version, lines 250 to 358 of the source.\<close>

definition DecoderWrapper_Close :: "addr \<Rightarrow> world \<Rightarrow> unit exit \<times> world" where
  "DecoderWrapper_Close w =
     seq (\<lambda>s. Decoder_Reset (Decoder (dwrappers s w)) None s) (\<lambda>err.
     if err = None then (\<lambda>s. Pool_Put (pool (dwrappers s w)) (DecW w) s)
     else ret ())"

text \<open>
  The stream adapter: \<open>dw\<close> is the wrapper, \<open>Reader\<close> the read-stream view of the
  embedded handle.
\<close>

record decoderReadCloser =
  dw :: addr
  Reader :: "addr option"

definition DecoderWrapper_IOReadCloser :: "addr \<Rightarrow> world \<Rightarrow> decoderReadCloser" where
  "DecoderWrapper_IOReadCloser w s = \<lparr>dw = w, Reader = Decoder (dwrappers s w)\<rparr>"

definition decoderReadCloser_Close :: "decoderReadCloser \<Rightarrow> world \<Rightarrow> error option exit \<times> world" where
  "decoderReadCloser_Close w =
     seq (DecoderWrapper_Close (dw w)) (\<lambda>_.
     ret None)"

definition NewDecoderPool :: "DOption list \<Rightarrow> world \<Rightarrow> addr \<times> world" where
  "NewDecoderPool options s =
     (let p = heap_top s
      in (p, s\<lparr>pools := (pools s)(p := \<lparr>idle = [], New = Some (DecoderNew p options)\<rparr>),
               heap_top := Suc p\<rparr>))"

text \<open>The finalizer of a \<open>*DecoderWrapper\<close>: \<open>dw.Decoder.Close()\<close>.\<close>

definition DecoderWrapper_finalizer :: "addr \<Rightarrow> world \<Rightarrow> unit exit \<times> world" where
  "DecoderWrapper_finalizer w s = Decoder_Close (Decoder (dwrappers s w)) s"

record DecoderPoolWrapper =
  dpw_pool :: "addr option"

definition type_assert_DecoderWrapper :: "iface \<Rightarrow> world \<Rightarrow> addr exit \<times> world" where
  "type_assert_DecoderWrapper x s =
     (case x of DecW w \<Rightarrow> (Return w, s) | _ \<Rightarrow> (Panics TypeAssertion, s))"

definition DecoderPoolWrapper_Get :: "DecoderPoolWrapper \<Rightarrow> stream option \<Rightarrow> nat option
    \<Rightarrow> world \<Rightarrow> addr exit \<times> world" where
  "DecoderPoolWrapper_Get d r choice =
     seq (Pool_Get (dpw_pool d) choice) (\<lambda>x.
     seq (type_assert_DecoderWrapper x) (\<lambda>w.
     seq (\<lambda>s. Decoder_Reset (Decoder (dwrappers s w)) r s) (\<lambda>err.
     case err of
       Some e \<Rightarrow> (\<lambda>s. (Panics (PanicError e), s))
     | None \<Rightarrow> ret w)))"

definition DecoderPoolWrapper_Put :: "DecoderPoolWrapper \<Rightarrow> addr \<Rightarrow> world \<Rightarrow> unit exit \<times> world" where
  "DecoderPoolWrapper_Put d w =
     seq (\<lambda>s. Decoder_Reset (Decoder (dwrappers s w)) None s) (\<lambda>err.
     if err = None then Pool_Put (dpw_pool d) (DecW w)
     else ret ())"

definition NewDecoderPoolWrapper :: "DOption list \<Rightarrow> world \<Rightarrow> DecoderPoolWrapper \<times> world" where
  "NewDecoderPoolWrapper options s =
     (case NewDecoderPool options s of (p, s') \<Rightarrow> (\<lparr>dpw_pool = Some p\<rparr>, s'))"

subsection \<open>The earlier decoder wrapper\<close>

text \<open>
  The source also keeps the earlier version of the decoder file (lines 151 to 222).
  There \<open>DecoderWrapper.Close\<close> drops the result of the reset and always puts the
  wrapper back, and the finalizer registered by \<open>NewDecoderPool\<close> is \<open>dw.Close()\<close>.
\<close>

definition DecoderWrapper_Close_old :: "addr \<Rightarrow> world \<Rightarrow> unit exit \<times> world" where
  "DecoderWrapper_Close_old w =
     seq (\<lambda>s. Decoder_Reset (Decoder (dwrappers s w)) None s) (\<lambda>_.
     (\<lambda>s. Pool_Put (pool (dwrappers s w)) (DecW w) s))"

definition DecoderWrapper_finalizer_old :: "addr \<Rightarrow> world \<Rightarrow> unit exit \<times> world" where
  "DecoderWrapper_finalizer_old w s = DecoderWrapper_Close_old w s"

subsection \<open>Running finalizers\<close>

text \<open>
  The garbage collector runs the finalizer that is registered on an unreachable object
  and clears the registration first.
\<close>

definition run_finalizer :: "addr \<Rightarrow> world \<Rightarrow> unit exit \<times> world" where
  "run_finalizer obj s =
     (case finalizers s obj of
        None \<Rightarrow> (Return (), s)
      | Some EncoderFinalizer \<Rightarrow> EncoderWrapper_finalizer obj (s\<lparr>finalizers := (finalizers s)(obj := None)\<rparr>)
      | Some DecoderFinalizer \<Rightarrow> DecoderWrapper_finalizer obj (s\<lparr>finalizers := (finalizers s)(obj := None)\<rparr>))"

section \<open>Sequences of calls\<close>

text \<open>
  The calls a client can make on the pool of an \<open>*EncoderPoolWrapper\<close>: \<open>Get(w)\<close>,
  where the pool makes its choice, and \<open>Put(w)\<close>. A run keeps going after a panic,
  as a client that recovers would, and records how every call ended.
\<close>

datatype enc_op = EGet "stream option" "nat option" | EPut addr

definition forget :: "'a exit \<times> world \<Rightarrow> unit exit \<times> world" where
  "forget r = (case r of (Return _, s) \<Rightarrow> (Return (), s) | (Panics x, s) \<Rightarrow> (Panics x, s))"

fun enc_step :: "EncoderPoolWrapper \<Rightarrow> enc_op \<Rightarrow> world \<Rightarrow> unit exit \<times> world" where
  "enc_step e (EGet w choice) s = forget (EncoderPoolWrapper_Get e w choice s)"
| "enc_step e (EPut w) s = EncoderPoolWrapper_Put e w s"

fun enc_run :: "EncoderPoolWrapper \<Rightarrow> enc_op list \<Rightarrow> world \<Rightarrow> unit exit list \<times> world" where
  "enc_run e [] s = ([], s)"
| "enc_run e (c # cs) s =
     (case enc_step e c s of (x, s') \<Rightarrow>
        (case enc_run e cs s' of (xs, s'') \<Rightarrow> (x # xs, s'')))"

text \<open>
  The calls on a decoder pool: the construction function \<open>p.New()\<close> called directly,
  \<open>w.Close()\<close> on a wrapper, and \<open>Put(w)\<close> and \<open>Get(r)\<close> of the
  \<open>*DecoderPoolWrapper\<close>. Calling a nil function value dereferences nil.
\<close>

datatype dec_op = DNew | DClose addr | DPut addr | DGet "stream option" "nat option"

definition Pool_New_call :: "addr option \<Rightarrow> world \<Rightarrow> iface exit \<times> world" where
  "Pool_New_call p s =
     (case p of
        None \<Rightarrow> (Panics NilDereference, s)
      | Some a \<Rightarrow>
          (case New (pools s a) of
             None \<Rightarrow> (Panics NilDereference, s)
           | Some f \<Rightarrow> call_New f s))"

fun dec_step :: "DecoderPoolWrapper \<Rightarrow> dec_op \<Rightarrow> world \<Rightarrow> unit exit \<times> world" where
  "dec_step d DNew s = forget (Pool_New_call (dpw_pool d) s)"
| "dec_step d (DClose w) s = DecoderWrapper_Close w s"
| "dec_step d (DPut w) s = DecoderPoolWrapper_Put d w s"
| "dec_step d (DGet r choice) s = forget (DecoderPoolWrapper_Get d r choice s)"

fun dec_run :: "DecoderPoolWrapper \<Rightarrow> dec_op list \<Rightarrow> world \<Rightarrow> unit exit list \<times> world" where
  "dec_run d [] s = ([], s)"
| "dec_run d (c # cs) s =
     (case dec_step d c s of (x, s') \<Rightarrow>
        (case dec_run d cs s' of (xs, s'') \<Rightarrow> (x # xs, s'')))"

text \<open>
  A call can only name a wrapper that exists when the call is made: its address lies
  below the top of the heap.
\<close>

fun dec_op_scoped :: "dec_op \<Rightarrow> world \<Rightarrow> bool" where
  "dec_op_scoped (DClose w) s = (w < heap_top s)"
| "dec_op_scoped (DPut w) s = (w < heap_top s)"
| "dec_op_scoped _ s = True"

fun dec_scoped :: "DecoderPoolWrapper \<Rightarrow> dec_op list \<Rightarrow> world \<Rightarrow> bool" where
  "dec_scoped d [] s = True"
| "dec_scoped d (c # cs) s = (dec_op_scoped c s \<and> dec_scoped d cs (snd (dec_step d c s)))"

fun is_DGet :: "dec_op \<Rightarrow> bool" where
  "is_DGet (DGet r choice) = True"
| "is_DGet _ = False"

text \<open>
  An idle item is healthy when it is a \<open>*DecoderWrapper\<close> that exists and whose handle
  is there, is not closed and has no source.
\<close>

definition healthy_item :: "world \<Rightarrow> iface \<Rightarrow> bool" where
  "healthy_item s x =
     (case x of
        DecW w \<Rightarrow>
          w < heap_top s \<and>
          (case Decoder (dwrappers s w) of
             None \<Rightarrow> False
           | Some h \<Rightarrow> \<not> dec_closed (decoders s h) \<and> dec_source (decoders s h) = None)
      | _ \<Rightarrow> False)"

definition pool_healthy :: "world \<Rightarrow> addr \<Rightarrow> bool" where
  "pool_healthy s p = list_all (healthy_item s) (idle (pools s p))"

fun is_EncW :: "iface \<Rightarrow> bool" where
  "is_EncW (EncW w) = True"
| "is_EncW _ = False"

fun is_DecW :: "iface \<Rightarrow> bool" where
  "is_DecW (DecW w) = True"
| "is_DecW _ = False"

section \<open>Concrete heaps\<close>

text \<open>
  \<open>world0\<close> is the empty heap. In \<open>world_dec\<close> a decoder pool was built at address 0 and
  its construction function has run once: the handle is at 1, the wrapper at 2.
  In \<open>world_dec_closed\<close> that handle was closed behind the back of the wrapper.
  In \<open>world_enc\<close> an encoder pool is at 0, with a handle at 1 and its wrapper at 2.
  In \<open>world_dec_bypassed\<close> a client has put the wrapper with the closed handle into
  the pool with \<open>sync.Pool.Put\<close>; in \<open>world_enc_used\<close> the encoder writes to stream 5.
\<close>

definition world0 :: world where
  "world0 = \<lparr>encoders = (\<lambda>_. \<lparr>enc_target = None, enc_closed = False\<rparr>),
             decoders = (\<lambda>_. \<lparr>dec_source = None, dec_closed = False\<rparr>),
             ewrappers = (\<lambda>_. \<lparr>Encoder = None\<rparr>),
             dwrappers = (\<lambda>_. \<lparr>Decoder = None, pool = None\<rparr>),
             pools = (\<lambda>_. \<lparr>idle = [], New = None\<rparr>),
             finalizers = (\<lambda>_. None),
             heap_top = 0\<rparr>"

definition world_dec :: world where
  "world_dec = snd (DecoderPool_New 0 [] (snd (NewDecoderPool [] world0)))"

definition world_dec_closed :: world where
  "world_dec_closed = snd (Decoder_Close (Some 1) world_dec)"

definition world_enc :: world where
  "world_enc = snd (EncoderPool_New [] (snd (NewEncoderPool [] world0)))"

definition world_dec_bypassed :: world where
  "world_dec_bypassed = snd (Pool_Put (Some 0) (DecW 2) world_dec_closed)"

definition world_enc_used :: world where
  "world_enc_used = snd (Encoder_Reset (Some 1) (Some 5) world_enc)"

section \<open>Invariants of the pools\<close>

text \<open>
  A pool built by \<open>NewEncoderPool\<close> keeps its construction function and holds
  \<open>*EncoderWrapper\<close> items only; likewise for \<open>NewDecoderPool\<close>.
\<close>

definition enc_pool_typed :: "world \<Rightarrow> addr \<Rightarrow> bool" where
  "enc_pool_typed s p =
     ((case New (pools s p) of Some (EncoderNew options) \<Rightarrow> True | _ \<Rightarrow> False)
      \<and> list_all is_EncW (idle (pools s p)))"

definition dec_pool_typed :: "world \<Rightarrow> addr \<Rightarrow> bool" where
  "dec_pool_typed s p =
     ((case New (pools s p) of Some (DecoderNew q options) \<Rightarrow> True | _ \<Rightarrow> False)
      \<and> list_all is_DecW (idle (pools s p)))"

section \<open>Basic facts\<close>

lemmas engine_defs = Decoder_Reset_def Decoder_Close_def Encoder_Reset_def Encoder_Close_def
  zstd_NewReader_def zstd_NewWriter_def

lemmas pool_defs = Pool_Put_def Pool_Get_def Pool_New_call_def call_New_def EncoderPool_New_def
  DecoderPool_New_def runtime_SetFinalizer_def NewEncoderPool_def NewDecoderPool_def
  NewEncoderPoolWrapper_def NewDecoderPoolWrapper_def

lemmas monad_defs = seq_def ret_def forget_def

lemmas facade_defs = EncoderPoolWrapper_Get_def EncoderPoolWrapper_Put_def
  DecoderPoolWrapper_Get_def DecoderPoolWrapper_Put_def DecoderWrapper_Close_def
  decoderReadCloser_Close_def DecoderWrapper_IOReadCloser_def
  type_assert_EncoderWrapper_def type_assert_DecoderWrapper_def
  run_finalizer_def EncoderWrapper_finalizer_def DecoderWrapper_finalizer_def
  DecoderWrapper_Close_old_def DecoderWrapper_finalizer_old_def

lemmas world_defs = world0_def world_dec_def world_dec_closed_def world_enc_def
  world_dec_bypassed_def world_enc_used_def


subsection \<open>Pools hold wrappers of their own kind\<close>

lemma pools_Decoder_Reset: "pools (snd (Decoder_Reset d r s)) = pools s"
  by (simp add: Decoder_Reset_def split: option.splits)

lemma pools_Encoder_Reset: "pools (snd (Encoder_Reset e w s)) = pools s"
  by (simp add: Encoder_Reset_def split: option.splits)

lemma pools_call_New: "pools (snd (call_New f s)) = pools s"
  by (auto simp add: call_New_def EncoderPool_New_def DecoderPool_New_def
      zstd_NewReader_def zstd_NewWriter_def runtime_SetFinalizer_def Let_def
      split: option.splits newfn.splits)

lemma snd_forget: "snd (forget r) = snd r"
  by (cases r) (auto simp add: forget_def split: exit.splits)

lemma fst_forget_panic: "fst (forget r) = Panics x \<longleftrightarrow> fst r = Panics x"
  by (cases r) (auto simp add: forget_def split: exit.splits)

lemma list_all_take_drop:
  "list_all P xs \<Longrightarrow> list_all P (take i xs) \<and> list_all P (drop j xs)"
  by (auto simp add: list_all_iff dest: in_set_takeD in_set_dropD)

text \<open>What the pool hands out, and what it keeps.\<close>

lemma enc_Pool_Get:
  assumes "enc_pool_typed s p" and "Pool_Get (Some p) choice s = (x, s1)"
  shows "(\<exists>ew. x = Return (EncW ew)) \<and> enc_pool_typed s1 p"
proof -
  obtain options where new: "New (pools s p) = Some (EncoderNew options)"
    using assms(1) by (auto simp add: enc_pool_typed_def split: option.splits newfn.splits)
  have all: "list_all is_EncW (idle (pools s p))"
    using assms(1) by (simp add: enc_pool_typed_def)
  have fresh: "(\<exists>ew. fst (call_New (EncoderNew options) s) = Return (EncW ew))
      \<and> enc_pool_typed (snd (call_New (EncoderNew options) s)) p"
    using assms(1)
    by (simp add: enc_pool_typed_def pools_call_New)
       (simp add: call_New_def EncoderPool_New_def Let_def split_beta)
  show ?thesis
  proof (cases "\<exists>i. choice = Some i \<and> i < length (idle (pools s p))")
    case True
    then obtain i where i: "choice = Some i" "i < length (idle (pools s p))" by blast
    have "is_EncW (idle (pools s p) ! i)"
      using all i(2) by (simp add: list_all_length)
    then obtain ew where "idle (pools s p) ! i = EncW ew"
      by (cases "idle (pools s p) ! i") simp_all
    with assms(2) i new all show ?thesis
      by (auto simp add: Pool_Get_def Let_def enc_pool_typed_def list_all_take_drop)
  next
    case False
    with assms(2) new have "(x, s1) = call_New (EncoderNew options) s"
      by (auto simp add: Pool_Get_def Let_def split: option.splits)
    with fresh show ?thesis
      by (metis fst_conv snd_conv)
  qed
qed

lemma dec_Pool_Get:
  assumes "dec_pool_typed s p" and "Pool_Get (Some p) choice s = (x, s1)"
  shows "(\<exists>w. x = Return (DecW w)) \<and> dec_pool_typed s1 p"
proof -
  obtain q options where new: "New (pools s p) = Some (DecoderNew q options)"
    using assms(1) by (auto simp add: dec_pool_typed_def split: option.splits newfn.splits)
  have all: "list_all is_DecW (idle (pools s p))"
    using assms(1) by (simp add: dec_pool_typed_def)
  have fresh: "(\<exists>w. fst (call_New (DecoderNew q options) s) = Return (DecW w))
      \<and> dec_pool_typed (snd (call_New (DecoderNew q options) s)) p"
    using assms(1)
    by (simp add: dec_pool_typed_def pools_call_New)
       (simp add: call_New_def DecoderPool_New_def Let_def split_beta)
  show ?thesis
  proof (cases "\<exists>i. choice = Some i \<and> i < length (idle (pools s p))")
    case True
    then obtain i where i: "choice = Some i" "i < length (idle (pools s p))" by blast
    have "is_DecW (idle (pools s p) ! i)"
      using all i(2) by (simp add: list_all_length)
    then obtain w where "idle (pools s p) ! i = DecW w"
      by (cases "idle (pools s p) ! i") simp_all
    with assms(2) i new all show ?thesis
      by (auto simp add: Pool_Get_def Let_def dec_pool_typed_def list_all_take_drop)
  next
    case False
    with assms(2) new have "(x, s1) = call_New (DecoderNew q options) s"
      by (auto simp add: Pool_Get_def Let_def split: option.splits)
    with fresh show ?thesis
      by (metis fst_conv snd_conv)
  qed
qed

lemma enc_pool_typed_pools_cong:
  "pools s' = pools s \<Longrightarrow> enc_pool_typed s' p = enc_pool_typed s p"
  by (simp add: enc_pool_typed_def)

lemma dec_pool_typed_pools_cong:
  "pools s' = pools s \<Longrightarrow> dec_pool_typed s' p = dec_pool_typed s p"
  by (simp add: dec_pool_typed_def)

lemma enc_pool_typed_Pool_Put:
  "enc_pool_typed s p \<Longrightarrow> enc_pool_typed (snd (Pool_Put q (EncW w) s)) p"
  by (auto simp add: enc_pool_typed_def Pool_Put_def split: option.splits)

lemma dec_pool_typed_Pool_Put:
  "dec_pool_typed s p \<Longrightarrow> dec_pool_typed (snd (Pool_Put q (DecW w) s)) p"
  by (auto simp add: dec_pool_typed_def Pool_Put_def split: option.splits)

lemma enc_Get_typed:
  assumes "enc_pool_typed s p" and "epw_pool e = Some p"
  shows "fst (EncoderPoolWrapper_Get e w choice s) \<noteq> Panics TypeAssertion
     \<and> enc_pool_typed (snd (EncoderPoolWrapper_Get e w choice s)) p"
proof (cases "Pool_Get (Some p) choice s")
  case (Pair x s1)
  from enc_Pool_Get [OF assms(1) Pair] obtain ew
    where x: "x = Return (EncW ew)" and inv: "enc_pool_typed s1 p" by blast
  have "enc_pool_typed (snd (Encoder_Reset (Encoder (ewrappers s1 ew)) w s1)) p"
    using inv by (simp add: enc_pool_typed_pools_cong [OF pools_Encoder_Reset])
  with Pair x assms(2) show ?thesis
    by (cases "Encoder_Reset (Encoder (ewrappers s1 ew)) w s1")
       (auto simp add: EncoderPoolWrapper_Get_def type_assert_EncoderWrapper_def seq_def ret_def
          Encoder_Reset_def split: exit.splits option.splits)
qed

lemma enc_Put_typed:
  assumes "enc_pool_typed s p"
  shows "fst (EncoderPoolWrapper_Put e w s) \<noteq> Panics TypeAssertion
     \<and> enc_pool_typed (snd (EncoderPoolWrapper_Put e w s)) p"
proof (cases "Encoder_Reset (Encoder (ewrappers s w)) None s")
  case (Pair x s1)
  have s1: "s1 = snd (Encoder_Reset (Encoder (ewrappers s w)) None s)"
    using Pair by simp
  have inv: "enc_pool_typed s1 p"
    unfolding s1 using assms by (simp add: enc_pool_typed_pools_cong [OF pools_Encoder_Reset])
  have nopanic: "x \<noteq> Panics TypeAssertion"
    using Pair by (auto simp add: Encoder_Reset_def split: option.splits)
  show ?thesis
  proof (cases x)
    case (Return u)
    have "fst (Pool_Put (epw_pool e) (EncW w) s1) \<noteq> Panics TypeAssertion"
      by (simp add: Pool_Put_def split: option.splits)
    with Pair Return enc_pool_typed_Pool_Put [OF inv, of "epw_pool e" w] show ?thesis
      by (simp add: EncoderPoolWrapper_Put_def seq_def)
  next
    case (Panics y)
    with Pair inv nopanic show ?thesis
      by (simp add: EncoderPoolWrapper_Put_def seq_def)
  qed
qed

lemma enc_step_typed:
  assumes "enc_pool_typed s p" and "epw_pool e = Some p"
  shows "fst (enc_step e c s) \<noteq> Panics TypeAssertion \<and> enc_pool_typed (snd (enc_step e c s)) p"
proof (cases c)
  case (EGet w choice)
  with enc_Get_typed [OF assms, of w choice] show ?thesis
    by (simp add: snd_forget fst_forget_panic)
next
  case (EPut w)
  with enc_Put_typed [OF assms(1), of e w] show ?thesis by simp
qed

lemma enc_run_typed:
  assumes "enc_pool_typed s p" and "epw_pool e = Some p"
  shows "Panics TypeAssertion \<notin> set (fst (enc_run e cs s))"
  using assms(1)
proof (induction cs arbitrary: s)
  case Nil
  then show ?case by simp
next
  case (Cons c cs)
  from enc_step_typed [OF Cons.prems assms(2), of c]
  have a: "fst (enc_step e c s) \<noteq> Panics TypeAssertion"
    and b: "enc_pool_typed (snd (enc_step e c s)) p" by simp_all
  from Cons.IH [OF b] a show ?case
    by (simp add: split_beta)
qed


lemma dec_Get_typed:
  assumes "dec_pool_typed s p" and "dpw_pool d = Some p"
  shows "fst (DecoderPoolWrapper_Get d r choice s) \<noteq> Panics TypeAssertion
     \<and> dec_pool_typed (snd (DecoderPoolWrapper_Get d r choice s)) p"
proof (cases "Pool_Get (Some p) choice s")
  case (Pair x s1)
  from dec_Pool_Get [OF assms(1) Pair] obtain w
    where x: "x = Return (DecW w)" and inv: "dec_pool_typed s1 p" by blast
  have "dec_pool_typed (snd (Decoder_Reset (Decoder (dwrappers s1 w)) r s1)) p"
    using inv by (simp add: dec_pool_typed_pools_cong [OF pools_Decoder_Reset])
  with Pair x assms(2) show ?thesis
    by (cases "Decoder_Reset (Decoder (dwrappers s1 w)) r s1")
       (auto simp add: DecoderPoolWrapper_Get_def type_assert_DecoderWrapper_def seq_def ret_def
          Decoder_Reset_def split: exit.splits option.splits if_splits)
qed

lemma dec_release_typed:
  assumes "dec_pool_typed s p"
  shows "fst (seq (\<lambda>s. Decoder_Reset (Decoder (dwrappers s w)) None s)
            (\<lambda>err. if err = None then (\<lambda>s. Pool_Put (q s) (DecW w) s) else ret ()) s)
           \<noteq> Panics TypeAssertion
     \<and> dec_pool_typed (snd (seq (\<lambda>s. Decoder_Reset (Decoder (dwrappers s w)) None s)
            (\<lambda>err. if err = None then (\<lambda>s. Pool_Put (q s) (DecW w) s) else ret ()) s)) p"
proof (cases "Decoder_Reset (Decoder (dwrappers s w)) None s")
  case (Pair x s1)
  have s1: "s1 = snd (Decoder_Reset (Decoder (dwrappers s w)) None s)"
    using Pair by simp
  have inv: "dec_pool_typed s1 p"
    unfolding s1 using assms by (simp add: dec_pool_typed_pools_cong [OF pools_Decoder_Reset])
  have nopanic: "x \<noteq> Panics TypeAssertion"
    using Pair by (auto simp add: Decoder_Reset_def split: option.splits if_splits)
  show ?thesis
  proof (cases x)
    case (Return err)
    have "fst (Pool_Put (q s1) (DecW w) s1) \<noteq> Panics TypeAssertion"
      by (simp add: Pool_Put_def split: option.splits)
    with Pair Return inv dec_pool_typed_Pool_Put [OF inv, of "q s1" w] show ?thesis
      by (simp add: seq_def ret_def)
  next
    case (Panics y)
    with Pair inv nopanic show ?thesis
      by (simp add: seq_def)
  qed
qed

lemma dec_New_call_typed:
  assumes "dec_pool_typed s p"
  shows "fst (Pool_New_call q s) \<noteq> Panics TypeAssertion
     \<and> dec_pool_typed (snd (Pool_New_call q s)) p"
proof -
  have "fst (call_New f s) \<noteq> Panics TypeAssertion" for f
    by (simp add: call_New_def EncoderPool_New_def DecoderPool_New_def Let_def split_beta
        split: newfn.splits)
  moreover have "dec_pool_typed (snd (call_New f s)) p" for f
    using assms by (simp add: dec_pool_typed_pools_cong [OF pools_call_New])
  ultimately show ?thesis
    using assms by (simp add: Pool_New_call_def split: option.splits)
qed

lemma dec_step_typed:
  assumes "dec_pool_typed s p" and "dpw_pool d = Some p"
  shows "fst (dec_step d c s) \<noteq> Panics TypeAssertion \<and> dec_pool_typed (snd (dec_step d c s)) p"
proof (cases c)
  case DNew
  with dec_New_call_typed [OF assms(1), of "dpw_pool d"] show ?thesis
    by (simp add: snd_forget fst_forget_panic)
next
  case (DClose w)
  with dec_release_typed [OF assms(1), of w "\<lambda>s. pool (dwrappers s w)"] show ?thesis
    by (simp add: DecoderWrapper_Close_def)
next
  case (DPut w)
  with dec_release_typed [OF assms(1), of w "\<lambda>s. dpw_pool d"] show ?thesis
    by (simp add: DecoderPoolWrapper_Put_def)
next
  case (DGet r choice)
  with dec_Get_typed [OF assms, of r choice] show ?thesis
    by (simp add: snd_forget fst_forget_panic)
qed

lemma dec_run_typed:
  assumes "dec_pool_typed s p" and "dpw_pool d = Some p"
  shows "Panics TypeAssertion \<notin> set (fst (dec_run d cs s))"
  using assms(1)
proof (induction cs arbitrary: s)
  case Nil
  then show ?case by simp
next
  case (Cons c cs)
  from dec_step_typed [OF Cons.prems assms(2), of c]
  have a: "fst (dec_step d c s) \<noteq> Panics TypeAssertion"
    and b: "dec_pool_typed (snd (dec_step d c s)) p" by simp_all
  from Cons.IH [OF b] a show ?case
    by (simp add: split_beta)
qed

subsection \<open>Release keeps the pools healthy\<close>

lemma healthy_item_Decoder_Reset:
  "healthy_item s x \<Longrightarrow> healthy_item (snd (Decoder_Reset d None s)) x"
  by (auto simp add: healthy_item_def Decoder_Reset_def split: option.splits iface.splits)

lemma healthy_item_after_reset:
  "w < heap_top s \<Longrightarrow> Decoder_Reset (Decoder (dwrappers s w)) None s = (Return None, s1)
    \<Longrightarrow> healthy_item s1 (DecW w)"
  by (auto simp add: healthy_item_def Decoder_Reset_def split: option.splits if_splits)

lemma healthy_item_pools_irrelevant:
  "healthy_item (s\<lparr>pools := f\<rparr>) x = healthy_item s x"
  by (simp add: healthy_item_def split: iface.splits option.splits)

lemma healthy_item_call_New:
  "healthy_item s x \<Longrightarrow> healthy_item (snd (call_New f s)) x"
  by (auto simp add: healthy_item_def call_New_def EncoderPool_New_def DecoderPool_New_def
      zstd_NewReader_def zstd_NewWriter_def runtime_SetFinalizer_def Let_def
      split: option.splits iface.splits newfn.splits)

lemma pool_healthy_Pool_Put:
  "\<forall>p. pool_healthy s p \<Longrightarrow> healthy_item s x \<Longrightarrow> \<forall>p. pool_healthy (snd (Pool_Put q x s)) p"
  by (auto simp add: pool_healthy_def Pool_Put_def healthy_item_pools_irrelevant list_all_iff
      split: option.splits)

lemma pool_healthy_Decoder_Reset:
  "\<forall>p. pool_healthy s p \<Longrightarrow> \<forall>p. pool_healthy (snd (Decoder_Reset d None s)) p"
  by (simp add: pool_healthy_def pools_Decoder_Reset list_all_iff healthy_item_Decoder_Reset)

lemma pool_healthy_Pool_New_call:
  "\<forall>p. pool_healthy s p \<Longrightarrow> \<forall>p. pool_healthy (snd (Pool_New_call q s)) p"
  by (auto simp add: Pool_New_call_def pool_healthy_def pools_call_New list_all_iff
      healthy_item_call_New split: option.splits)

lemma pool_healthy_DecoderWrapper_Close:
  assumes "\<forall>p. pool_healthy s p" and "w < heap_top s"
  shows "\<forall>p. pool_healthy (snd (DecoderWrapper_Close w s)) p"
proof (cases "Decoder_Reset (Decoder (dwrappers s w)) None s")
  case (Pair x s1)
  have s1: "s1 = snd (Decoder_Reset (Decoder (dwrappers s w)) None s)"
    using Pair by simp
  have inv1: "\<forall>p. pool_healthy s1 p"
    unfolding s1 using assms(1) by (rule pool_healthy_Decoder_Reset)
  show ?thesis
  proof (cases x)
    case (Panics e)
    with Pair inv1 show ?thesis
      by (simp add: DecoderWrapper_Close_def seq_def)
  next
    case (Return err)
    show ?thesis
    proof (cases err)
      case None
      with Pair Return have "healthy_item s1 (DecW w)"
        using healthy_item_after_reset [OF assms(2)] by simp
      with inv1 have "\<forall>p. pool_healthy (snd (Pool_Put (pool (dwrappers s1 w)) (DecW w) s1)) p"
        by (rule pool_healthy_Pool_Put)
      with Pair Return None show ?thesis
        by (simp add: DecoderWrapper_Close_def seq_def)
    next
      case (Some e)
      with Pair Return inv1 show ?thesis
        by (simp add: DecoderWrapper_Close_def seq_def ret_def)
    qed
  qed
qed

lemma pool_healthy_DecoderPoolWrapper_Put:
  assumes "\<forall>p. pool_healthy s p" and "w < heap_top s"
  shows "\<forall>p. pool_healthy (snd (DecoderPoolWrapper_Put d w s)) p"
proof (cases "Decoder_Reset (Decoder (dwrappers s w)) None s")
  case (Pair x s1)
  have s1: "s1 = snd (Decoder_Reset (Decoder (dwrappers s w)) None s)"
    using Pair by simp
  have inv1: "\<forall>p. pool_healthy s1 p"
    unfolding s1 using assms(1) by (rule pool_healthy_Decoder_Reset)
  show ?thesis
  proof (cases x)
    case (Panics e)
    with Pair inv1 show ?thesis
      by (simp add: DecoderPoolWrapper_Put_def seq_def)
  next
    case (Return err)
    show ?thesis
    proof (cases err)
      case None
      with Pair Return have "healthy_item s1 (DecW w)"
        using healthy_item_after_reset [OF assms(2)] by simp
      with inv1 have "\<forall>p. pool_healthy (snd (Pool_Put (dpw_pool d) (DecW w) s1)) p"
        by (rule pool_healthy_Pool_Put)
      with Pair Return None show ?thesis
        by (simp add: DecoderPoolWrapper_Put_def seq_def)
    next
      case (Some e)
      with Pair Return inv1 show ?thesis
        by (simp add: DecoderPoolWrapper_Put_def seq_def ret_def)
    qed
  qed
qed

lemma pool_healthy_dec_step:
  assumes "\<forall>p. pool_healthy s p" and "dec_op_scoped c s" and "\<not> is_DGet c"
  shows "\<forall>p. pool_healthy (snd (dec_step d c s)) p"
proof (cases c)
  case DNew
  with assms(1) show ?thesis
    by (simp add: snd_forget pool_healthy_Pool_New_call)
next
  case (DClose w)
  with assms show ?thesis
    by (simp add: pool_healthy_DecoderWrapper_Close)
next
  case (DPut w)
  with assms show ?thesis
    by (simp add: pool_healthy_DecoderPoolWrapper_Put)
next
  case (DGet r choice)
  with assms(3) show ?thesis by simp
qed

section \<open>The claims\<close>

text \<open>
  Claim C1. Every call of \<open>DecoderWrapper.Close\<close> and of \<open>DecoderPoolWrapper.Put\<close> first
  resets the source of the handle to nil: the decoders are left as that reset leaves
  them. When the reset returns no error the call returns and the wrapper is appended to
  its pool (the pool of the wrapper for \<open>Close\<close>, the pool of the facade for \<open>Put\<close>);
  in every other case no pool changes. When the reset returns an error the call still
  returns normally, and its result type carries no error. No handle changes its closed
  flag, so the call closes nothing.
\<close>

theorem decoder_release_gated_by_reset:
  "decoders (snd (DecoderWrapper_Close w s))
       = decoders (snd (Decoder_Reset (Decoder (dwrappers s w)) None s))
   \<and> (fst (Decoder_Reset (Decoder (dwrappers s w)) None s) = Return None \<longrightarrow>
        (\<forall>p. pool (dwrappers s w) = Some p \<longrightarrow>
           fst (DecoderWrapper_Close w s) = Return ()
           \<and> pools (snd (DecoderWrapper_Close w s))
               = (pools s)(p := (pools s p)\<lparr>idle := idle (pools s p) @ [DecW w]\<rparr>)))
   \<and> (fst (Decoder_Reset (Decoder (dwrappers s w)) None s) \<noteq> Return None \<longrightarrow>
        pools (snd (DecoderWrapper_Close w s)) = pools s)
   \<and> (\<forall>e. fst (Decoder_Reset (Decoder (dwrappers s w)) None s) = Return (Some e) \<longrightarrow>
        fst (DecoderWrapper_Close w s) = Return ())
   \<and> (\<forall>k. dec_closed (decoders (snd (DecoderWrapper_Close w s)) k) = dec_closed (decoders s k))
   \<and> decoders (snd (DecoderPoolWrapper_Put d w s))
       = decoders (snd (Decoder_Reset (Decoder (dwrappers s w)) None s))
   \<and> (fst (Decoder_Reset (Decoder (dwrappers s w)) None s) = Return None \<longrightarrow>
        (\<forall>p. dpw_pool d = Some p \<longrightarrow>
           fst (DecoderPoolWrapper_Put d w s) = Return ()
           \<and> pools (snd (DecoderPoolWrapper_Put d w s))
               = (pools s)(p := (pools s p)\<lparr>idle := idle (pools s p) @ [DecW w]\<rparr>)))
   \<and> (fst (Decoder_Reset (Decoder (dwrappers s w)) None s) \<noteq> Return None \<longrightarrow>
        pools (snd (DecoderPoolWrapper_Put d w s)) = pools s)
   \<and> (\<forall>e. fst (Decoder_Reset (Decoder (dwrappers s w)) None s) = Return (Some e) \<longrightarrow>
        fst (DecoderPoolWrapper_Put d w s) = Return ())
   \<and> (\<forall>k. dec_closed (decoders (snd (DecoderPoolWrapper_Put d w s)) k) = dec_closed (decoders s k))"
  by (cases "Decoder (dwrappers s w)"; cases "pool (dwrappers s w)"; cases "dpw_pool d")
     (simp_all add: DecoderWrapper_Close_def DecoderPoolWrapper_Put_def seq_def ret_def
        Decoder_Reset_def Pool_Put_def)

theorem decoder_release_gated_by_reset_witness:
  "fst (Decoder_Reset (Decoder (dwrappers world_dec 2)) None world_dec) = Return None
   \<and> pool (dwrappers world_dec 2) = Some 0
   \<and> dpw_pool \<lparr>dpw_pool = Some 0\<rparr> = Some 0
   \<and> fst (DecoderWrapper_Close 2 world_dec) = Return ()
   \<and> idle (pools (snd (DecoderWrapper_Close 2 world_dec)) 0) = [DecW 2]
   \<and> fst (DecoderPoolWrapper_Put \<lparr>dpw_pool = Some 0\<rparr> 2 world_dec) = Return ()
   \<and> idle (pools (snd (DecoderPoolWrapper_Put \<lparr>dpw_pool = Some 0\<rparr> 2 world_dec)) 0) = [DecW 2]
   \<and> fst (Decoder_Reset (Decoder (dwrappers world_dec_closed 2)) None world_dec_closed)
       = Return (Some ErrDecoderClosed)
   \<and> DecoderWrapper_Close 2 world_dec_closed = (Return (), world_dec_closed)
   \<and> DecoderPoolWrapper_Put \<lparr>dpw_pool = Some 0\<rparr> 2 world_dec_closed = (Return (), world_dec_closed)
   \<and> idle (pools world_dec_closed 0) = []"
  using decoder_release_gated_by_reset [of 2 world_dec "\<lparr>dpw_pool = Some 0\<rparr>"]
    decoder_release_gated_by_reset [of 2 world_dec_closed "\<lparr>dpw_pool = Some 0\<rparr>"]
  by (simp add: world_defs engine_defs pool_defs facade_defs monad_defs)

text \<open>
  Claim C2. Start from a heap in which every idle item of every pool is healthy (for
  instance, all pools empty) and make any sequence of calls to the construction
  function, to \<open>DecoderWrapper.Close\<close> and to \<open>DecoderPoolWrapper.Put\<close>, each call naming
  a wrapper that exists at that moment. Then every idle item of every pool is a decoder
  wrapper whose handle is not closed and whose source is nil.
\<close>

theorem decoder_pool_holds_only_healthy_wrappers:
  assumes "\<forall>p. pool_healthy s p"
    and "dec_scoped d cs s"
    and "\<not> list_ex is_DGet cs"
  shows "\<forall>p. pool_healthy (snd (dec_run d cs s)) p"
  using assms
proof (induction cs arbitrary: s)
  case Nil
  then show ?case by simp
next
  case (Cons c cs)
  have step: "\<forall>p. pool_healthy (snd (dec_step d c s)) p"
    using Cons.prems by (simp add: pool_healthy_dec_step)
  have "\<forall>p. pool_healthy (snd (dec_run d cs (snd (dec_step d c s)))) p"
    using Cons.IH [OF step] Cons.prems by simp
  then show ?case
    by (simp add: split_beta)
qed

theorem decoder_pool_holds_only_healthy_wrappers_witness:
  "(\<forall>p. pool_healthy world_dec_closed p)
   \<and> dec_scoped \<lparr>dpw_pool = Some 0\<rparr> [DPut 2, DNew, DClose 4, DClose 2] world_dec_closed
   \<and> \<not> list_ex is_DGet [DPut 2, DNew, DClose 4, DClose 2]
   \<and> (\<forall>p. pool_healthy (snd (dec_run \<lparr>dpw_pool = Some 0\<rparr>
          [DPut 2, DNew, DClose 4, DClose 2] world_dec_closed)) p)
   \<and> idle (pools (snd (dec_run \<lparr>dpw_pool = Some 0\<rparr>
          [DPut 2, DNew, DClose 4, DClose 2] world_dec_closed)) 0) = [DecW 4]
   \<and> fst (dec_run \<lparr>dpw_pool = Some 0\<rparr> [DPut 2, DNew, DClose 4, DClose 2] world_dec_closed)
       = [Return (), Return (), Return (), Return ()]"
proof -
  have a: "\<forall>p. pool_healthy world_dec_closed p"
    by (simp add: pool_healthy_def world_defs engine_defs pool_defs)
  have b: "dec_scoped \<lparr>dpw_pool = Some 0\<rparr> [DPut 2, DNew, DClose 4, DClose 2] world_dec_closed"
    by (simp add: world_defs engine_defs pool_defs facade_defs monad_defs)
  have c: "\<not> list_ex is_DGet [DPut 2, DNew, DClose 4, DClose 2]"
    by simp
  have d: "idle (pools (snd (dec_run \<lparr>dpw_pool = Some 0\<rparr>
          [DPut 2, DNew, DClose 4, DClose 2] world_dec_closed)) 0) = [DecW 4]"
    "fst (dec_run \<lparr>dpw_pool = Some 0\<rparr> [DPut 2, DNew, DClose 4, DClose 2] world_dec_closed)
       = [Return (), Return (), Return (), Return ()]"
    by (simp_all add: world_defs engine_defs pool_defs facade_defs monad_defs)
  from decoder_pool_holds_only_healthy_wrappers [OF a b c] a b c d show ?thesis
    by blast
qed

text \<open>
  Claim C3, as stated, fails. On the heap \<open>world_dec\<close> the finalizer registered by the
  construction function of \<open>NewDecoderPool\<close> does not take the release path: the release
  path (\<open>DecoderWrapper.Close\<close>) would leave the handle open and the wrapper in the pool,
  while the finalizer leaves the handle closed and the pool empty. The finalizer of
  the earlier version does call the \<open>Close\<close> of its time, which is not gated: on
  \<open>world_dec_closed\<close> the reset fails and the wrapper is pooled all the same.
\<close>

theorem decoder_finalizer_is_release_counterexample:
  "finalizers world_dec 2 = Some DecoderFinalizer
   \<and> Decoder (dwrappers world_dec 2) = Some 1
   \<and> pool (dwrappers world_dec 2) = Some 0
   \<and> fst (Decoder_Reset (Some 1) None world_dec) = Return None
   \<and> idle (pools (snd (DecoderWrapper_Close 2 world_dec)) 0) = [DecW 2]
   \<and> \<not> dec_closed (decoders (snd (DecoderWrapper_Close 2 world_dec)) 1)
   \<and> idle (pools (snd (run_finalizer 2 world_dec)) 0) = []
   \<and> dec_closed (decoders (snd (run_finalizer 2 world_dec)) 1)
   \<and> fst (Decoder_Reset (Some 1) None world_dec_closed) = Return (Some ErrDecoderClosed)
   \<and> idle (pools world_dec_closed 0) = []
   \<and> idle (pools (snd (DecoderWrapper_finalizer_old 2 world_dec_closed)) 0) = [DecW 2]"
  by (simp add: world_defs engine_defs pool_defs facade_defs monad_defs)

text \<open>
  Claim C3, amended. The finalizer that the construction function of \<open>NewDecoderPool\<close>
  registers on every wrapper calls \<open>Decoder.Close\<close> on the embedded handle: whenever it
  runs on a wrapper that has a handle, the handle ends up closed, its source is not
  reset, and no pool receives the wrapper.
\<close>

theorem decoder_finalizer_closes_handle:
  assumes "DecoderPool_New p options s = (x, s')"
  shows "\<exists>w. x = Return (DecW w)
     \<and> finalizers s' w = Some DecoderFinalizer
     \<and> (\<forall>t h. finalizers t w = Some DecoderFinalizer \<longrightarrow> Decoder (dwrappers t w) = Some h \<longrightarrow>
          fst (run_finalizer w t) = Return ()
          \<and> dec_closed (decoders (snd (run_finalizer w t)) h)
          \<and> dec_source (decoders (snd (run_finalizer w t)) h) = dec_source (decoders t h)
          \<and> pools (snd (run_finalizer w t)) = pools t)"
  using assms
  by (auto simp add: engine_defs pool_defs facade_defs monad_defs Let_def split: option.splits)

theorem decoder_finalizer_closes_handle_witness:
  "DecoderPool_New 0 [] (snd (NewDecoderPool [] world0)) = (Return (DecW 2), world_dec)
   \<and> finalizers world_dec 2 = Some DecoderFinalizer
   \<and> Decoder (dwrappers world_dec 2) = Some 1
   \<and> fst (run_finalizer 2 world_dec) = Return ()
   \<and> dec_closed (decoders (snd (run_finalizer 2 world_dec)) 1)
   \<and> pools (snd (run_finalizer 2 world_dec)) = pools world_dec"
proof -
  have new: "DecoderPool_New 0 [] (snd (NewDecoderPool [] world0)) = (Return (DecW 2), world_dec)"
    by (simp add: world_defs engine_defs pool_defs)
  have fin: "finalizers world_dec 2 = Some DecoderFinalizer"
    and dec: "Decoder (dwrappers world_dec 2) = Some 1"
    by (simp_all add: world_defs engine_defs pool_defs)
  from decoder_finalizer_closes_handle [OF new] fin dec
  have "fst (run_finalizer 2 world_dec) = Return ()
     \<and> dec_closed (decoders (snd (run_finalizer 2 world_dec)) 1)
     \<and> pools (snd (run_finalizer 2 world_dec)) = pools world_dec"
    by blast
  with new fin dec show ?thesis by simp
qed

text \<open>
  Claim C4. \<open>DecoderPoolWrapper.Get(r)\<close> takes the wrapper that the pool hands out, idle
  or new, and resets its handle against \<open>r\<close>. When the handle is closed the reset
  returns an error and \<open>Get\<close> panics with that error; otherwise \<open>Get\<close> returns the
  wrapper, whose handle now reads from \<open>r\<close>. The result of \<open>Get\<close> has no error value.
\<close>

theorem decoder_get_resets_or_panics:
  assumes "dpw_pool d = Some p"
    and "Pool_Get (Some p) choice s = (Return (DecW w), s1)"
    and "Decoder (dwrappers s1 w) = Some h"
  shows "(dec_closed (decoders s1 h) \<longrightarrow>
            fst (Decoder_Reset (Some h) r s1) = Return (Some ErrDecoderClosed)
            \<and> DecoderPoolWrapper_Get d r choice s = (Panics (PanicError ErrDecoderClosed), s1))
       \<and> (\<not> dec_closed (decoders s1 h) \<longrightarrow>
            fst (Decoder_Reset (Some h) r s1) = Return None
            \<and> DecoderPoolWrapper_Get d r choice s = (Return w, snd (Decoder_Reset (Some h) r s1))
            \<and> dec_source (decoders (snd (DecoderPoolWrapper_Get d r choice s)) h) = r)"
  using assms
  by (simp add: DecoderPoolWrapper_Get_def type_assert_DecoderWrapper_def seq_def ret_def
      Decoder_Reset_def)

theorem decoder_get_resets_or_panics_witness:
  "dpw_pool \<lparr>dpw_pool = Some 0\<rparr> = Some 0
   \<and> Pool_Get (Some 0) None (snd (NewDecoderPool [] world0)) = (Return (DecW 2), world_dec)
   \<and> Decoder (dwrappers world_dec 2) = Some 1
   \<and> \<not> dec_closed (decoders world_dec 1)
   \<and> fst (DecoderPoolWrapper_Get \<lparr>dpw_pool = Some 0\<rparr> (Some 7) None (snd (NewDecoderPool [] world0)))
       = Return 2
   \<and> dec_source (decoders (snd (DecoderPoolWrapper_Get \<lparr>dpw_pool = Some 0\<rparr> (Some 7) None
        (snd (NewDecoderPool [] world0)))) 1) = Some 7
   \<and> Pool_Get (Some 0) (Some 0) world_dec_bypassed = (Return (DecW 2), world_dec_closed)
   \<and> Decoder (dwrappers world_dec_closed 2) = Some 1
   \<and> dec_closed (decoders world_dec_closed 1)
   \<and> DecoderPoolWrapper_Get \<lparr>dpw_pool = Some 0\<rparr> (Some 7) (Some 0) world_dec_bypassed
       = (Panics (PanicError ErrDecoderClosed), world_dec_closed)"
proof -
  have a: "Pool_Get (Some 0) None (snd (NewDecoderPool [] world0)) = (Return (DecW 2), world_dec)"
    by (simp add: world_defs engine_defs pool_defs)
  have b: "Pool_Get (Some 0) (Some 0) world_dec_bypassed = (Return (DecW 2), world_dec_closed)"
    by (simp add: world_dec_bypassed_def world_defs engine_defs pool_defs)
  have c: "Decoder (dwrappers world_dec 2) = Some 1" "\<not> dec_closed (decoders world_dec 1)"
    "Decoder (dwrappers world_dec_closed 2) = Some 1" "dec_closed (decoders world_dec_closed 1)"
    by (simp_all add: world_defs engine_defs pool_defs)
  show ?thesis
    using decoder_get_resets_or_panics [of "\<lparr>dpw_pool = Some 0\<rparr>" 0 None
        "snd (NewDecoderPool [] world0)" 2 world_dec 1 "Some 7"]
      decoder_get_resets_or_panics [of "\<lparr>dpw_pool = Some 0\<rparr>" 0 "Some 0"
        world_dec_bypassed 2 world_dec_closed 1 "Some 7"]
      a b c
    by (simp add: Decoder_Reset_def)
qed

text \<open>
  Claim C5. The adapter that \<open>DecoderWrapper.IOReadCloser\<close> builds on a wrapper refers
  to that wrapper. Its \<open>Close\<close> leaves the state that \<open>DecoderWrapper.Close\<close> leaves and
  returns the nil error whenever that release returns, in particular when the reset
  inside the release fails; it never returns a non-nil error; and no handle changes
  its closed flag.
\<close>

theorem stream_close_always_succeeds:
  "dw (DecoderWrapper_IOReadCloser w s0) = w
   \<and> snd (decoderReadCloser_Close (DecoderWrapper_IOReadCloser w s0) s)
       = snd (DecoderWrapper_Close w s)
   \<and> (fst (DecoderWrapper_Close w s) = Return () \<longrightarrow>
        fst (decoderReadCloser_Close (DecoderWrapper_IOReadCloser w s0) s) = Return None)
   \<and> (\<forall>h. Decoder (dwrappers s w) = Some h \<longrightarrow>
        dec_closed (decoders s h) \<or> pool (dwrappers s w) \<noteq> None \<longrightarrow>
        fst (decoderReadCloser_Close (DecoderWrapper_IOReadCloser w s0) s) = Return None)
   \<and> (\<forall>e. fst (decoderReadCloser_Close (DecoderWrapper_IOReadCloser w s0) s) \<noteq> Return (Some e))
   \<and> (\<forall>k. dec_closed (decoders (snd (decoderReadCloser_Close (DecoderWrapper_IOReadCloser w s0) s)) k)
            = dec_closed (decoders s k))"
  by (cases "Decoder (dwrappers s w)"; cases "pool (dwrappers s w)")
     (simp_all add: decoderReadCloser_Close_def DecoderWrapper_IOReadCloser_def
        DecoderWrapper_Close_def seq_def ret_def Decoder_Reset_def Pool_Put_def)

theorem stream_close_always_succeeds_witness:
  "Decoder (dwrappers world_dec_closed 2) = Some 1
   \<and> dec_closed (decoders world_dec_closed 1)
   \<and> fst (Decoder_Reset (Some 1) None world_dec_closed) = Return (Some ErrDecoderClosed)
   \<and> decoderReadCloser_Close (DecoderWrapper_IOReadCloser 2 world_dec) world_dec_closed
       = (Return None, world_dec_closed)
   \<and> Decoder (dwrappers world_dec 2) = Some 1
   \<and> pool (dwrappers world_dec 2) = Some 0
   \<and> fst (DecoderWrapper_Close 2 world_dec) = Return ()
   \<and> decoderReadCloser_Close (DecoderWrapper_IOReadCloser 2 world_dec) world_dec
       = (Return None, snd (DecoderWrapper_Close 2 world_dec))
   \<and> idle (pools (snd (DecoderWrapper_Close 2 world_dec)) 0) = [DecW 2]
   \<and> \<not> dec_closed (decoders (snd (DecoderWrapper_Close 2 world_dec)) 1)"
  using stream_close_always_succeeds [of 2 world_dec world_dec_closed] stream_close_always_succeeds [of 2 world_dec world_dec]
  by (simp add: world_defs engine_defs pool_defs facade_defs monad_defs)

text \<open>
  Claim C6. For a wrapper with a handle, \<open>EncoderPoolWrapper.Put\<close> resets the target of
  the encoder to nil and then appends the wrapper to the pool; there is no outcome of
  the reset that keeps the wrapper out. Whatever wrapper a later
  \<open>EncoderPoolWrapper.Get\<close> takes from that pool, its target is the one passed to \<open>Get\<close>.
\<close>

theorem encoder_put_resets_and_always_pools:
  assumes "Encoder (ewrappers s w) = Some h"
    and "epw_pool e = Some p"
    and "s1 = snd (EncoderPoolWrapper_Put e w s)"
  shows "fst (EncoderPoolWrapper_Put e w s) = Return ()
    \<and> encoders s1 = encoders (snd (Encoder_Reset (Some h) None s))
    \<and> enc_target (encoders s1 h) = None
    \<and> idle (pools s1 p) = idle (pools s p) @ [EncW w]
    \<and> (\<forall>choice target s2 v k. Pool_Get (Some p) choice s1 = (Return (EncW v), s2) \<longrightarrow>
          Encoder (ewrappers s2 v) = Some k \<longrightarrow>
            fst (EncoderPoolWrapper_Get e target choice s1) = Return v
            \<and> enc_target (encoders (snd (EncoderPoolWrapper_Get e target choice s1)) k) = target)"
  using assms
  by (simp add: EncoderPoolWrapper_Put_def EncoderPoolWrapper_Get_def
      type_assert_EncoderWrapper_def seq_def ret_def Encoder_Reset_def Pool_Put_def)

theorem encoder_put_resets_and_always_pools_witness:
  "Encoder (ewrappers world_enc_used 2) = Some 1
   \<and> epw_pool \<lparr>epw_pool = Some 0\<rparr> = Some 0
   \<and> enc_target (encoders world_enc_used 1) = Some 5
   \<and> fst (EncoderPoolWrapper_Put \<lparr>epw_pool = Some 0\<rparr> 2 world_enc_used) = Return ()
   \<and> enc_target (encoders (snd (EncoderPoolWrapper_Put \<lparr>epw_pool = Some 0\<rparr> 2 world_enc_used)) 1) = None
   \<and> idle (pools (snd (EncoderPoolWrapper_Put \<lparr>epw_pool = Some 0\<rparr> 2 world_enc_used)) 0) = [EncW 2]
   \<and> fst (EncoderPoolWrapper_Get \<lparr>epw_pool = Some 0\<rparr> (Some 9) (Some 0)
         (snd (EncoderPoolWrapper_Put \<lparr>epw_pool = Some 0\<rparr> 2 world_enc_used))) = Return 2
   \<and> enc_target (encoders (snd (EncoderPoolWrapper_Get \<lparr>epw_pool = Some 0\<rparr> (Some 9) (Some 0)
         (snd (EncoderPoolWrapper_Put \<lparr>epw_pool = Some 0\<rparr> 2 world_enc_used)))) 1) = Some 9"
  using encoder_put_resets_and_always_pools [of world_enc_used 2 1 "\<lparr>epw_pool = Some 0\<rparr>" 0
      "snd (EncoderPoolWrapper_Put \<lparr>epw_pool = Some 0\<rparr> 2 world_enc_used)"]
  by (simp add: world_enc_used_def world_defs engine_defs pool_defs facade_defs monad_defs)

text \<open>
  Claim C7. The construction function of \<open>NewEncoderPool\<close> returns an encoder wrapper on
  which the encoder finalizer is registered; when the options are accepted the wrapper
  has an open handle. Whenever that finalizer runs on the wrapper while it has a handle,
  the handle ends up closed.
\<close>

theorem encoder_finalizer_closes_handle:
  assumes "EncoderPool_New options s = (x, s')"
  shows "\<exists>ew. x = Return (EncW ew)
     \<and> finalizers s' ew = Some EncoderFinalizer
     \<and> (first_error options = None \<longrightarrow>
          (\<exists>h. Encoder (ewrappers s' ew) = Some h \<and> \<not> enc_closed (encoders s' h)))
     \<and> (\<forall>t h. finalizers t ew = Some EncoderFinalizer \<longrightarrow> Encoder (ewrappers t ew) = Some h \<longrightarrow>
          fst (run_finalizer ew t) = Return ()
          \<and> enc_closed (encoders (snd (run_finalizer ew t)) h))"
  using assms
  by (auto simp add: engine_defs pool_defs facade_defs monad_defs Let_def split: option.splits)

theorem encoder_finalizer_closes_handle_witness:
  "EncoderPool_New [] (snd (NewEncoderPool [] world0)) = (Return (EncW 2), world_enc)
   \<and> first_error [] = None
   \<and> finalizers world_enc 2 = Some EncoderFinalizer
   \<and> Encoder (ewrappers world_enc 2) = Some 1
   \<and> \<not> enc_closed (encoders world_enc 1)
   \<and> fst (run_finalizer 2 world_enc) = Return ()
   \<and> enc_closed (encoders (snd (run_finalizer 2 world_enc)) 1)"
proof -
  have new: "EncoderPool_New [] (snd (NewEncoderPool [] world0)) = (Return (EncW 2), world_enc)"
    by (simp add: world_defs engine_defs pool_defs)
  have fin: "finalizers world_enc 2 = Some EncoderFinalizer"
    and enc: "Encoder (ewrappers world_enc 2) = Some 1"
    and opn: "\<not> enc_closed (encoders world_enc 1)"
    by (simp_all add: world_defs engine_defs pool_defs)
  from encoder_finalizer_closes_handle [OF new] fin enc
  have "fst (run_finalizer 2 world_enc) = Return ()
     \<and> enc_closed (encoders (snd (run_finalizer 2 world_enc)) 1)"
    by blast
  with new fin enc opn show ?thesis by simp
qed

text \<open>
  Claim C8. The function that \<open>NewEncoderPool\<close> (\<open>NewDecoderPool\<close>) stores in \<open>New\<close> is the
  construction function with the given options. In every state it returns a wrapper,
  never an error; and when the constructor of the codec engine returns an error, the
  wrapper it returns has a nil handle.
\<close>

theorem construction_error_discarded:
  "(\<exists>f. New (pools (snd (NewEncoderPool options s)) (fst (NewEncoderPool options s))) = Some f
       \<and> (\<forall>t. \<exists>ew. call_New f t = EncoderPool_New options t
             \<and> fst (call_New f t) = Return (EncW ew)
             \<and> (\<forall>err. snd (fst (zstd_NewWriter None options t)) = Some err \<longrightarrow>
                   Encoder (ewrappers (snd (call_New f t)) ew) = None)))
   \<and> (\<exists>g. New (pools (snd (NewDecoderPool doptions s)) (fst (NewDecoderPool doptions s))) = Some g
       \<and> (\<forall>t. \<exists>w. call_New g t = DecoderPool_New (fst (NewDecoderPool doptions s)) doptions t
             \<and> fst (call_New g t) = Return (DecW w)
             \<and> (\<forall>err. snd (fst (zstd_NewReader None doptions t)) = Some err \<longrightarrow>
                   Decoder (dwrappers (snd (call_New g t)) w) = None)))"
  by (simp add: engine_defs pool_defs Let_def split: option.splits)

theorem construction_error_discarded_witness:
  "snd (fst (zstd_NewWriter None [None, Some (ErrOption 3)]
          (snd (NewEncoderPool [None, Some (ErrOption 3)] world0)))) = Some (ErrOption 3)
   \<and> fst (Pool_Get (Some 0) None (snd (NewEncoderPool [None, Some (ErrOption 3)] world0)))
       = Return (EncW 1)
   \<and> Encoder (ewrappers (snd (Pool_Get (Some 0) None
          (snd (NewEncoderPool [None, Some (ErrOption 3)] world0)))) 1) = None
   \<and> snd (fst (zstd_NewReader None [None, Some (ErrOption 3)]
          (snd (NewDecoderPool [None, Some (ErrOption 3)] world0)))) = Some (ErrOption 3)
   \<and> fst (Pool_Get (Some 0) None (snd (NewDecoderPool [None, Some (ErrOption 3)] world0)))
       = Return (DecW 1)
   \<and> Decoder (dwrappers (snd (Pool_Get (Some 0) None
          (snd (NewDecoderPool [None, Some (ErrOption 3)] world0)))) 1) = None"
  using construction_error_discarded [of "[None, Some (ErrOption 3)]" world0 "[None, Some (ErrOption 3)]"]
  by (simp add: world_defs engine_defs pool_defs)

text \<open>
  Claim C9. In a pool built by \<open>NewEncoderPoolWrapper\<close>, no call of a sequence of \<open>Get\<close>
  and \<open>Put\<close> on that facade ends in a failed type assertion. The same holds for a pool
  built by \<open>NewDecoderPoolWrapper\<close> and any sequence of \<open>Get\<close>, \<open>Put\<close>,
  \<open>DecoderWrapper.Close\<close> and direct calls to the construction function.
\<close>

theorem type_assertion_never_fails:
  assumes "NewEncoderPoolWrapper eoptions s = (e, s0)"
    and "NewDecoderPoolWrapper doptions t = (d, t0)"
  shows "Panics TypeAssertion \<notin> set (fst (enc_run e ecs s0))
     \<and> Panics TypeAssertion \<notin> set (fst (dec_run d dcs t0))"
proof -
  have e: "epw_pool e = Some (heap_top s)" and "enc_pool_typed s0 (heap_top s)"
    using assms(1)
    by (auto simp add: NewEncoderPoolWrapper_def NewEncoderPool_def Let_def enc_pool_typed_def)
  then have "Panics TypeAssertion \<notin> set (fst (enc_run e ecs s0))"
    using enc_run_typed by blast
  moreover
  have d: "dpw_pool d = Some (heap_top t)" and "dec_pool_typed t0 (heap_top t)"
    using assms(2)
    by (auto simp add: NewDecoderPoolWrapper_def NewDecoderPool_def Let_def dec_pool_typed_def)
  then have "Panics TypeAssertion \<notin> set (fst (dec_run d dcs t0))"
    using dec_run_typed by blast
  ultimately show ?thesis by simp
qed

theorem type_assertion_never_fails_witness:
  "NewEncoderPoolWrapper [] world0 = (\<lparr>epw_pool = Some 0\<rparr>, snd (NewEncoderPool [] world0))
   \<and> NewDecoderPoolWrapper [] world0 = (\<lparr>dpw_pool = Some 0\<rparr>, snd (NewDecoderPool [] world0))
   \<and> Panics TypeAssertion \<notin> set (fst (enc_run \<lparr>epw_pool = Some 0\<rparr>
        [EGet (Some 5) None, EPut 2, EGet (Some 6) (Some 0)] (snd (NewEncoderPool [] world0))))
   \<and> fst (enc_run \<lparr>epw_pool = Some 0\<rparr>
        [EGet (Some 5) None, EPut 2, EGet (Some 6) (Some 0)] (snd (NewEncoderPool [] world0)))
       = [Return (), Return (), Return ()]
   \<and> Panics TypeAssertion \<notin> set (fst (dec_run \<lparr>dpw_pool = Some 0\<rparr>
        [DGet (Some 5) None, DPut 2, DGet (Some 6) (Some 0), DClose 2]
        (snd (NewDecoderPool [] world0))))
   \<and> fst (dec_run \<lparr>dpw_pool = Some 0\<rparr>
        [DGet (Some 5) None, DPut 2, DGet (Some 6) (Some 0), DClose 2]
        (snd (NewDecoderPool [] world0)))
       = [Return (), Return (), Return (), Return ()]"
proof -
  have a: "NewEncoderPoolWrapper [] world0 = (\<lparr>epw_pool = Some 0\<rparr>, snd (NewEncoderPool [] world0))"
    and b: "NewDecoderPoolWrapper [] world0 = (\<lparr>dpw_pool = Some 0\<rparr>, snd (NewDecoderPool [] world0))"
    by (simp_all add: world_defs pool_defs)
  have c: "fst (enc_run \<lparr>epw_pool = Some 0\<rparr>
        [EGet (Some 5) None, EPut 2, EGet (Some 6) (Some 0)] (snd (NewEncoderPool [] world0)))
       = [Return (), Return (), Return ()]"
    by (simp add: world_defs engine_defs pool_defs facade_defs monad_defs)
  have d: "fst (dec_run \<lparr>dpw_pool = Some 0\<rparr>
        [DGet (Some 5) None, DPut 2, DGet (Some 6) (Some 0), DClose 2]
        (snd (NewDecoderPool [] world0)))
       = [Return (), Return (), Return (), Return ()]"
    by (simp add: world_defs engine_defs pool_defs facade_defs monad_defs)
  from type_assertion_never_fails [OF a b] a b c d show ?thesis by simp
qed

text \<open>
  Claim C10. The adapter is an immutable pair and \<open>Close\<close> returns no new adapter, so
  nothing records that it was closed. On a wrapper with an open handle and a pool,
  closing the same adapter twice returns nil both times, runs \<open>DecoderWrapper.Close\<close>
  both times, and leaves the wrapper in the pool twice.
\<close>

theorem stream_close_twice_pools_twice:
  assumes "Decoder (dwrappers s w) = Some h"
    and "\<not> dec_closed (decoders s h)"
    and "pool (dwrappers s w) = Some p"
    and "a = DecoderWrapper_IOReadCloser w s0"
    and "s1 = snd (decoderReadCloser_Close a s)"
    and "s2 = snd (decoderReadCloser_Close a s1)"
  shows "fst (decoderReadCloser_Close a s) = Return None
    \<and> s1 = snd (DecoderWrapper_Close w s)
    \<and> fst (decoderReadCloser_Close a s1) = Return None
    \<and> s2 = snd (DecoderWrapper_Close w s1)
    \<and> idle (pools s1 p) = idle (pools s p) @ [DecW w]
    \<and> idle (pools s2 p) = idle (pools s p) @ [DecW w, DecW w]"
  using assms
  by (simp add: decoderReadCloser_Close_def DecoderWrapper_IOReadCloser_def
      DecoderWrapper_Close_def seq_def ret_def Decoder_Reset_def Pool_Put_def)

theorem stream_close_twice_pools_twice_witness:
  "Decoder (dwrappers world_dec 2) = Some 1
   \<and> \<not> dec_closed (decoders world_dec 1)
   \<and> pool (dwrappers world_dec 2) = Some 0
   \<and> idle (pools world_dec 0) = []
   \<and> fst (decoderReadCloser_Close (DecoderWrapper_IOReadCloser 2 world_dec) world_dec) = Return None
   \<and> fst (decoderReadCloser_Close (DecoderWrapper_IOReadCloser 2 world_dec)
        (snd (decoderReadCloser_Close (DecoderWrapper_IOReadCloser 2 world_dec) world_dec))) = Return None
   \<and> idle (pools (snd (decoderReadCloser_Close (DecoderWrapper_IOReadCloser 2 world_dec)
        (snd (decoderReadCloser_Close (DecoderWrapper_IOReadCloser 2 world_dec) world_dec)))) 0)
       = [DecW 2, DecW 2]"
proof -
  have h: "Decoder (dwrappers world_dec 2) = Some 1" "\<not> dec_closed (decoders world_dec 1)"
    "pool (dwrappers world_dec 2) = Some 0" "idle (pools world_dec 0) = []"
    by (simp_all add: world_defs engine_defs pool_defs)
  show ?thesis
    using stream_close_twice_pools_twice [OF h(1) h(2) h(3) refl refl refl, of world_dec] h
    by (simp add: world_defs engine_defs pool_defs facade_defs monad_defs)
qed

end
